theory Spec2Isabelle
  imports Main "HOL-Library.Multiset"
begin

section \<open>http/sink.hpp: content metadata\<close>

text \<open>
  \<^verbatim>\<open>struct FileInfo\<close>: the content type and the two timestamps. \<^verbatim>\<open>std::time_t\<close> is a
  signed arithmetic type; the header only stores it and writes the literal \<^verbatim>\<open>-1\<close>, so
  it is modelled as \<open>int\<close>.
\<close>

record FileInfo =
  contentType :: string
  lastModified :: int
  expires :: int

text \<open>
  The constructor has three defaulted parameters. An omitted argument is \<open>None\<close>; C++
  allows omitting trailing arguments only, and every such call is covered.
\<close>

definition FileInfo_ctor :: "string option \<Rightarrow> int option \<Rightarrow> int option \<Rightarrow> FileInfo" where
  "FileInfo_ctor ct lm ex =
     \<lparr> contentType = (case ct of None \<Rightarrow> ''application/octet-stream'' | Some c \<Rightarrow> c),
       lastModified = (case lm of None \<Rightarrow> - 1 | Some t \<Rightarrow> t),
       expires = (case ex of None \<Rightarrow> - 1 | Some t \<Rightarrow> t) \<rparr>"

definition FileInfo_default :: FileInfo where
  "FileInfo_default = FileInfo_ctor None None None"

section \<open>http/sink.hpp: DataSource\<close>

type_synonym byte = nat

text \<open>
  \<^verbatim>\<open>class DataSource\<close> has one data member, the private \<^verbatim>\<open>hasContentLength_\<close>
  (here \<open>hasContentLength_field\<close>: an identifier cannot end in an underscore). A
  subclass adds its own state, here \<open>'d\<close>, and supplies the virtual members.
\<close>

record 'd DataSource =
  hasContentLength_field :: bool
  derived :: 'd


definition DataSource_ctor :: "bool option \<Rightarrow> 'd \<Rightarrow> 'd DataSource" where
  "DataSource_ctor hcl d =
     \<lparr> hasContentLength_field = (case hcl of None \<Rightarrow> True | Some b \<Rightarrow> b), derived = d \<rparr>"

definition hasContentLength :: "'d DataSource \<Rightarrow> bool" where
  "hasContentLength ds = hasContentLength_field ds"










section \<open>http/sink.hpp: exceptions\<close>

text \<open>
  Modelled from the spec: \<^verbatim>\<open>error.hpp\<close>, which declares the exception classes, is not
  among the sources. The header constructs \<^verbatim>\<open>NotModified("Not Modified")\<close>, so that class
  carries a message; the spec names "Not Modified", "Request Aborted" and "any other"
  error kinds. \<open>'x\<close> stands for every other type a caller may pass to the
  \<^verbatim>\<open>error<T>\<close> template.
\<close>

datatype 'x exception = NotModified string | RequestAborted | Foreign 'x

text \<open>\<^verbatim>\<open>std::exception_ptr\<close>: null, or a handle on one exception object.\<close>

datatype 'x exception_ptr = exception_ptr_null | exception_ptr_to "'x exception"

definition make_exception_ptr :: "'x exception \<Rightarrow> 'x exception_ptr" where
  "make_exception_ptr e = exception_ptr_to e"

section \<open>http/sink.hpp: SinkBase\<close>

text \<open>
  A member function of a sink runs on the state \<open>'s\<close> of the object (which belongs to
  the implementing subclass: \<^verbatim>\<open>SinkBase\<close> has no data member) and either returns or
  throws; in both cases it leaves a state behind.
\<close>

type_synonym ('x, 's) action = "'s \<Rightarrow> ('x exception + unit) \<times> 's"

text \<open>
  The three pure virtual members of \<^verbatim>\<open>SinkBase\<close>. The argument \<^verbatim>\<open>const void *data\<close> is
  modelled by the bytes stored at that address.
\<close>

record ('x, 's) SinkBase =
  content_impl :: "byte list \<Rightarrow> nat \<Rightarrow> FileInfo \<Rightarrow> bool \<Rightarrow> ('x, 's) action"
  error_impl :: "'x exception_ptr \<Rightarrow> ('x, 's) action"
  seeOther_impl :: "string \<Rightarrow> ('x, 's) action"

text \<open>\<^verbatim>\<open>data.data()\<close> of a \<^verbatim>\<open>std::string\<close>: its characters as bytes.\<close>

definition string_data :: "string \<Rightarrow> byte list" where
  "string_data data = map of_char data"

text \<open>
  \<^verbatim>\<open>data.data()\<close> of a \<^verbatim>\<open>std::vector<T>\<close>: the object representations of the elements,
  one after the other. \<open>repr\<close> gives the object representation of a \<^verbatim>\<open>T\<close>.
\<close>

definition vector_data :: "('a \<Rightarrow> byte list) \<Rightarrow> 'a list \<Rightarrow> byte list" where
  "vector_data repr data = concat (map repr data)"

text \<open>\<^verbatim>\<open>void SinkBase::content(const std::string &data, const FileInfo &stat)\<close>\<close>

definition content_string :: "('x, 's, 'm) SinkBase_scheme \<Rightarrow> string \<Rightarrow> FileInfo \<Rightarrow> ('x, 's) action" where
  "content_string this data stat = content_impl this (string_data data) (length data) stat True"

text \<open>
  \<^verbatim>\<open>void SinkBase::content(const void *data, std::size_t size, const FileInfo &stat,
  bool needCopy)\<close> (\<open>sz\<close> is the parameter \<^verbatim>\<open>size\<close>)
\<close>

definition content_raw :: "('x, 's, 'm) SinkBase_scheme \<Rightarrow> byte list \<Rightarrow> nat \<Rightarrow> FileInfo \<Rightarrow> bool
    \<Rightarrow> ('x, 's) action" where
  "content_raw this data sz stat needCopy = content_impl this data sz stat needCopy"

text \<open>
  \<^verbatim>\<open>template <typename T> void SinkBase::content(const std::vector<T> &data, const
  FileInfo &stat)\<close>, with \<open>sizeof_T\<close> for \<^verbatim>\<open>sizeof(T)\<close>. The elements of a vector lie in
  one allocation of \<^verbatim>\<open>data.size() * sizeof(T)\<close> bytes, so the \<^verbatim>\<open>std::size_t\<close> product
  does not wrap and is the product of natural numbers.
\<close>

definition content_vector :: "('x, 's, 'm) SinkBase_scheme \<Rightarrow> ('a \<Rightarrow> byte list) \<Rightarrow> nat \<Rightarrow> 'a list
    \<Rightarrow> FileInfo \<Rightarrow> ('x, 's) action" where
  "content_vector this repr sizeof_T data stat =
     content_impl this (vector_data repr data) (length data * sizeof_T) stat True"

text \<open>\<^verbatim>\<open>void SinkBase::seeOther(const std::string &url)\<close>\<close>

definition seeOther :: "('x, 's, 'm) SinkBase_scheme \<Rightarrow> string \<Rightarrow> ('x, 's) action" where
  "seeOther this url = seeOther_impl this url"

text \<open>\<^verbatim>\<open>void SinkBase::error(const std::exception_ptr &exc)\<close>\<close>

definition error_ptr :: "('x, 's, 'm) SinkBase_scheme \<Rightarrow> 'x exception_ptr \<Rightarrow> ('x, 's) action" where
  "error_ptr this exc = error_impl this exc"

text \<open>\<^verbatim>\<open>template <typename T> void SinkBase::error(const T &exc)\<close>\<close>

definition error_T :: "('x, 's, 'm) SinkBase_scheme \<Rightarrow> 'x exception \<Rightarrow> ('x, 's) action" where
  "error_T this exc = error_impl this (make_exception_ptr exc)"


section \<open>http/sink.hpp: ServerSink\<close>

text \<open>\<^verbatim>\<open>enum class Type { dir, file }\<close>, with the enumerators' values 0 and 1.\<close>

datatype Type = dir | "file"

fun Type_value :: "Type \<Rightarrow> nat" where
  "Type_value dir = 0"
| "Type_value file = 1"

definition Type_less :: "Type \<Rightarrow> Type \<Rightarrow> bool" where
  "Type_less a b = (Type_value a < Type_value b)"

record ListingItem =
  name :: string
  type :: Type

definition ListingItem_ctor :: "string option \<Rightarrow> Type option \<Rightarrow> ListingItem" where
  "ListingItem_ctor n t =
     \<lparr> name = (case n of None \<Rightarrow> [] | Some x \<Rightarrow> x),
       type = (case t of None \<Rightarrow> file | Some x \<Rightarrow> x) \<rparr>"

type_synonym Listing = "ListingItem list"

text \<open>
  \<^verbatim>\<open>operator<\<close> of \<^verbatim>\<open>std::string\<close>: the first position where the strings differ decides,
  by the characters' values as \<^verbatim>\<open>unsigned char\<close>; a proper prefix is smaller.
\<close>

fun string_less :: "string \<Rightarrow> string \<Rightarrow> bool" where
  "string_less [] [] = False"
| "string_less [] (d # ds) = True"
| "string_less (c # cs) [] = False"
| "string_less (c # cs) (d # ds) =
     (if (of_char c :: nat) < of_char d then True
      else if (of_char d :: nat) < of_char c then False
      else string_less cs ds)"

text \<open>\<^verbatim>\<open>bool ServerSink::ListingItem::operator<(const ListingItem &o) const\<close>\<close>

definition ListingItem_less :: "ListingItem \<Rightarrow> ListingItem \<Rightarrow> bool" where
  "ListingItem_less this o' =
     (if Type_less (type this) (type o') then True
      else if Type_less (type o') (type this) then False
      else string_less (name this) (name o'))"

text \<open>
  The virtual members \<^verbatim>\<open>ServerSink\<close> adds. \<open>'src\<close> is \<^verbatim>\<open>DataSource::pointer\<close> and \<open>'cb\<close>
  is \<^verbatim>\<open>AbortedCallback\<close>. \<^verbatim>\<open>checkAborted_impl\<close> is a \<^verbatim>\<open>const\<close> member returning
  \<^verbatim>\<open>bool\<close>: it reads the state.
\<close>

record ('x, 's, 'src, 'cb) ServerSink = "('x, 's) SinkBase" +
  content_impl_source :: "'src \<Rightarrow> ('x, 's) action"
  listing_impl :: "Listing \<Rightarrow> ('x, 's) action"
  checkAborted_impl :: "'s \<Rightarrow> bool"
  setAborter_impl :: "'cb \<Rightarrow> ('x, 's) action"

text \<open>\<^verbatim>\<open>void ServerSink::content(const DataSource::pointer &source)\<close>\<close>

definition content_source :: "('x, 's, 'src, 'cb, 'm) ServerSink_scheme \<Rightarrow> 'src \<Rightarrow> ('x, 's) action" where
  "content_source this source = content_impl_source this source"

text \<open>\<^verbatim>\<open>void ServerSink::listing(const Listing &list)\<close>\<close>

definition listing :: "('x, 's, 'src, 'cb, 'm) ServerSink_scheme \<Rightarrow> Listing \<Rightarrow> ('x, 's) action" where
  "listing this list = listing_impl this list"

text \<open>\<^verbatim>\<open>void ServerSink::setAborter(const AbortedCallback &ac)\<close>\<close>

definition setAborter :: "('x, 's, 'src, 'cb, 'm) ServerSink_scheme \<Rightarrow> 'cb \<Rightarrow> ('x, 's) action" where
  "setAborter this ac = setAborter_impl this ac"

text \<open>
  Modelled from the spec: the body of \<^verbatim>\<open>void ServerSink::checkAborted() const\<close> is not
  in the header, which only declares it with the comment "Throws RequestAborted
  exception when true". By the spec it asks the transport whether the client has
  disconnected (\<^verbatim>\<open>checkAborted_impl\<close>), fails with the request-aborted condition if so,
  and otherwise returns normally with no side effect.
\<close>

definition checkAborted :: "('x, 's, 'src, 'cb, 'm) ServerSink_scheme \<Rightarrow> ('x, 's) action" where
  "checkAborted this s = (if checkAborted_impl this s then (Inl RequestAborted, s) else (Inr (), s))"

section \<open>http/sink.hpp: ClientSink\<close>

text \<open>
  \<^verbatim>\<open>notModified_impl\<close> is virtual with a body in \<^verbatim>\<open>ClientSink\<close>: a subclass may override
  it (\<open>Some\<close>) or not (\<open>None\<close>).
\<close>

record ('x, 's) ClientSink = "('x, 's) SinkBase" +
  notModified_override :: "('x, 's) action option"

text \<open>The body of \<^verbatim>\<open>ClientSink::notModified_impl\<close>: \<^verbatim>\<open>error(NotModified("Not Modified"))\<close>.\<close>

definition ClientSink_notModified_impl :: "('x, 's, 'm) ClientSink_scheme \<Rightarrow> ('x, 's) action" where
  "ClientSink_notModified_impl this = error_T this (NotModified ''Not Modified'')"

text \<open>The virtual call \<^verbatim>\<open>notModified_impl()\<close>: the override if there is one.\<close>

definition notModified_impl :: "('x, 's, 'm) ClientSink_scheme \<Rightarrow> ('x, 's) action" where
  "notModified_impl this =
     (case notModified_override this of
        None \<Rightarrow> ClientSink_notModified_impl this
      | Some f \<Rightarrow> f)"

text \<open>\<^verbatim>\<open>void ClientSink::notModified()\<close>\<close>

definition notModified :: "('x, 's, 'm) ClientSink_scheme \<Rightarrow> ('x, 's) action" where
  "notModified this = notModified_impl this"

section \<open>Calls of the primitives, and implementations to run the header on\<close>

text \<open>The calls of the three primitives of \<^verbatim>\<open>SinkBase\<close>, as values.\<close>

datatype 'x prim_call =
  Content_call "byte list" nat FileInfo bool
  | Error_call "'x exception_ptr"
  | SeeOther_call string








text \<open>
  The object representation of a 16-bit unsigned integer on a little-endian machine, for
  an example of a vector.
\<close>

definition uint16_le :: "nat \<Rightarrow> byte list" where
  "uint16_le x = [x mod 256, x div 256 mod 256]"

text \<open>
  An implementation of \<^verbatim>\<open>SinkBase\<close> whose primitives append their call to a log and
  return.
\<close>

definition recording_sink :: "('x, 'x prim_call list) SinkBase" where
  "recording_sink =
     \<lparr> content_impl = (\<lambda>data sz stat needCopy tr. (Inr (), tr @ [Content_call data sz stat needCopy])),
       error_impl = (\<lambda>exc tr. (Inr (), tr @ [Error_call exc])),
       seeOther_impl = (\<lambda>url tr. (Inr (), tr @ [SeeOther_call url])) \<rparr>"



text \<open>
  A \<^verbatim>\<open>ClientSink\<close> on the recording primitives that does not override
  \<^verbatim>\<open>notModified_impl\<close>.
\<close>

definition recording_client_sink :: "('x, 'x prim_call list) ClientSink" where
  "recording_client_sink =
     \<lparr> content_impl = content_impl recording_sink,
       error_impl = error_impl recording_sink,
       seeOther_impl = seeOther_impl recording_sink,
       notModified_override = None \<rparr>"

text \<open>
  A \<^verbatim>\<open>ServerSink\<close> whose state is the transport's "client has disconnected" flag; its
  other primitives return at once.
\<close>

definition flag_server_sink :: "(unit, bool, unit, unit) ServerSink" where
  "flag_server_sink =
     \<lparr> content_impl = (\<lambda>data sz stat needCopy s. (Inr (), s)),
       error_impl = (\<lambda>exc s. (Inr (), s)),
       seeOther_impl = (\<lambda>url s. (Inr (), s)),
       content_impl_source = (\<lambda>source s. (Inr (), s)),
       listing_impl = (\<lambda>list s. (Inr (), s)),
       checkAborted_impl = (\<lambda>s. s),
       setAborter_impl = (\<lambda>ac s. (Inr (), s)) \<rparr>"

text \<open>
  The listing of the spec's example and its expected rendering order, and what a sort by
  \<^verbatim>\<open>operator<\<close> guarantees of its output: no element is smaller than one before it.
\<close>

definition listing_example :: Listing where
  "listing_example =
     [\<lparr>name = ''b'', type = file\<rparr>, \<lparr>name = ''a'', type = dir\<rparr>,
      \<lparr>name = ''z'', type = dir\<rparr>, \<lparr>name = ''a'', type = file\<rparr>]"

definition listing_example_sorted :: Listing where
  "listing_example_sorted =
     [\<lparr>name = ''a'', type = dir\<rparr>, \<lparr>name = ''z'', type = dir\<rparr>,
      \<lparr>name = ''a'', type = file\<rparr>, \<lparr>name = ''b'', type = file\<rparr>]"

definition sorted_by_less :: "Listing \<Rightarrow> bool" where
  "sorted_by_less xs = sorted_wrt (\<lambda>a b. \<not> ListingItem_less b a) xs"

section \<open>Content metadata and DataSource: properties\<close>

text \<open>
  C8. A default-constructed \<^verbatim>\<open>FileInfo\<close> has content type
  \<^verbatim>\<open>application/octet-stream\<close>, \<^verbatim>\<open>lastModified = -1\<close> ("now") and \<^verbatim>\<open>expires = -1\<close>
  ("never").
\<close>

theorem FileInfo_default_fields:
  "contentType FileInfo_default = ''application/octet-stream''
   \<and> lastModified FileInfo_default = - 1
   \<and> expires FileInfo_default = - 1"
  by (simp add: FileInfo_default_def FileInfo_ctor_def)

text \<open>
  C10. A \<^verbatim>\<open>DataSource\<close> constructed without the \<^verbatim>\<open>hasContentLength\<close> argument reports
  \<^verbatim>\<open>hasContentLength() == true\<close>.
\<close>

theorem DataSource_default_hasContentLength:
  "hasContentLength (DataSource_ctor None d) = True"
  by (simp add: hasContentLength_def DataSource_ctor_def)






section \<open>SinkBase: properties\<close>

lemma vector_data_length:
  "\<forall>x \<in> set data. length (repr x) = sizeof_T
   \<Longrightarrow> length (vector_data repr data) = length data * sizeof_T"
  by (induction data) (simp_all add: vector_data_def)

text \<open>
  C5. \<^verbatim>\<open>content(s, stat)\<close> calls the content primitive with the bytes of \<^verbatim>\<open>s\<close> (the values
  of its characters, in order), the count \<^verbatim>\<open>s.size()\<close>, \<^verbatim>\<open>stat\<close> and \<^verbatim>\<open>needCopy = true\<close>;
  \<^verbatim>\<open>content(v, stat)\<close> calls it with the bytes of \<^verbatim>\<open>v\<close> (the object representations of its
  elements, in order), the count \<^verbatim>\<open>v.size() * sizeof(T)\<close>, \<^verbatim>\<open>stat\<close> and
  \<^verbatim>\<open>needCopy = true\<close>; \<^verbatim>\<open>content(data, size, stat, needCopy)\<close> passes its four arguments on
  unchanged. On the recording implementation each makes exactly that one call: the string
  \<^verbatim>\<open>"ab"\<close> arrives as the bytes 97, 98 with count 2, and the vector of the 16-bit values
  258, 3 as the bytes 2, 1, 3, 0 with count 4.
\<close>

theorem content_overloads_forward:
  "content_string this s stat = content_impl this (map of_char s) (length s) stat True
   \<and> content_vector this repr sizeof_T v stat
       = content_impl this (concat (map repr v)) (length v * sizeof_T) stat True
   \<and> content_raw this data sz stat needCopy = content_impl this data sz stat needCopy
   \<and> content_string recording_sink s stat tr
       = (Inr (), tr @ [Content_call (map of_char s) (length s) stat True])
   \<and> content_vector recording_sink repr sizeof_T v stat tr
       = (Inr (), tr @ [Content_call (concat (map repr v)) (length v * sizeof_T) stat True])
   \<and> content_raw recording_sink data sz stat needCopy tr
       = (Inr (), tr @ [Content_call data sz stat needCopy])
   \<and> content_string recording_sink ''ab'' stat [] = (Inr (), [Content_call [97, 98] 2 stat True])
   \<and> content_vector recording_sink uint16_le 2 [258, 3] stat []
       = (Inr (), [Content_call [2, 1, 3, 0] 4 stat True])"
proof -
  have str: "content_string this s stat = content_impl this (map of_char s) (length s) stat True"
    by (simp add: content_string_def string_data_def)
  have vec: "content_vector this repr sizeof_T v stat
       = content_impl this (concat (map repr v)) (length v * sizeof_T) stat True"
    by (simp add: content_vector_def vector_data_def)
  have raw: "content_raw this data sz stat needCopy = content_impl this data sz stat needCopy"
    by (simp add: content_raw_def)
  have rec_str: "content_string recording_sink s stat tr
       = (Inr (), tr @ [Content_call (map of_char s) (length s) stat True])"
    by (simp add: content_string_def string_data_def recording_sink_def)
  have rec_vec: "content_vector recording_sink repr sizeof_T v stat tr
       = (Inr (), tr @ [Content_call (concat (map repr v)) (length v * sizeof_T) stat True])"
    by (simp add: content_vector_def vector_data_def recording_sink_def)
  have rec_raw: "content_raw recording_sink data sz stat needCopy tr
       = (Inr (), tr @ [Content_call data sz stat needCopy])"
    by (simp add: content_raw_def recording_sink_def)
  have ab: "content_string recording_sink ''ab'' stat []
       = (Inr (), [Content_call [97, 98] 2 stat True])"
    by (simp add: content_string_def string_data_def recording_sink_def)
  have u16: "content_vector recording_sink uint16_le 2 [258, 3] stat []
       = (Inr (), [Content_call [2, 1, 3, 0] 4 stat True])"
    by (simp add: content_vector_def vector_data_def recording_sink_def uint16_le_def)
  show ?thesis
    by (intro conjI) (fact str vec raw rec_str rec_vec rec_raw ab u16)+
qed

text \<open>
  C6. \<^verbatim>\<open>error(e)\<close> for a value \<^verbatim>\<open>e\<close> of any type and \<^verbatim>\<open>error(exc)\<close> for an
  \<^verbatim>\<open>exception_ptr\<close> both call the one primitive \<^verbatim>\<open>error_impl\<close>; \<^verbatim>\<open>error(e)\<close> is that
  primitive called with \<^verbatim>\<open>make_exception_ptr(e)\<close>.
\<close>

theorem error_overloads_forward:
  "error_ptr this exc = error_impl this exc
   \<and> error_T this e = error_impl this (make_exception_ptr e)
   \<and> error_T this e = error_ptr this (make_exception_ptr e)
   \<and> error_ptr recording_sink exc tr = (Inr (), tr @ [Error_call exc])
   \<and> error_T recording_sink e tr = (Inr (), tr @ [Error_call (exception_ptr_to e)])"
  by (simp add: error_ptr_def error_T_def make_exception_ptr_def recording_sink_def)

text \<open>
  C7. \<^verbatim>\<open>seeOther(url)\<close> calls \<^verbatim>\<open>seeOther_impl(url)\<close> and nothing else: whatever the error
  and content primitives are, they play no part in it, and on the recording
  implementation the one call logged is the redirect.
\<close>

theorem seeOther_forwards:
  "seeOther this url = seeOther_impl this url
   \<and> seeOther (this\<lparr>error_impl := f, content_impl := g\<rparr>) url = seeOther this url
   \<and> seeOther recording_sink url tr = (Inr (), tr @ [SeeOther_call url])"
  by (simp add: seeOther_def recording_sink_def)

section \<open>ClientSink and ServerSink: properties\<close>

text \<open>
  C2. On a \<^verbatim>\<open>ClientSink\<close> that does not override \<^verbatim>\<open>notModified_impl\<close>, \<^verbatim>\<open>notModified()\<close>
  is \<^verbatim>\<open>error(NotModified("Not Modified"))\<close>: both call \<^verbatim>\<open>error_impl\<close> with an
  \<^verbatim>\<open>exception_ptr\<close> to a \<^verbatim>\<open>NotModified\<close> value.
\<close>

theorem notModified_default_is_error:
  assumes "notModified_override this = None"
  shows "notModified this s = error_T this (NotModified ''Not Modified'') s
         \<and> notModified this s
            = error_impl this (make_exception_ptr (NotModified ''Not Modified'')) s"
  using assms
  by (simp add: notModified_def notModified_impl_def ClientSink_notModified_impl_def error_T_def)

theorem notModified_default_is_error_witness:
  "notModified_override (recording_client_sink :: (unit, unit prim_call list) ClientSink) = None
   \<and> notModified (recording_client_sink :: (unit, unit prim_call list) ClientSink) []
      = (Inr (), [Error_call (exception_ptr_to (NotModified ''Not Modified''))])
   \<and> error_T (recording_client_sink :: (unit, unit prim_call list) ClientSink)
        (NotModified ''Not Modified'') []
      = (Inr (), [Error_call (exception_ptr_to (NotModified ''Not Modified''))])"
proof -
  have h: "notModified_override (recording_client_sink :: (unit, unit prim_call list) ClientSink)
           = None"
    by (simp add: recording_client_sink_def)
  show ?thesis
    using h notModified_default_is_error [OF h, of "[]"]
    by (simp add: recording_client_sink_def recording_sink_def make_exception_ptr_def error_T_def)
qed

text \<open>
  C3. \<^verbatim>\<open>checkAborted()\<close> called when the transport has flagged the disconnection fails
  with the request-aborted exception; called when it has not, it returns normally. In
  both cases the state of the sink is the one before the call.
\<close>

theorem checkAborted_outcome:
  "(checkAborted_impl this s \<longrightarrow> checkAborted this s = (Inl RequestAborted, s))
   \<and> (\<not> checkAborted_impl this s \<longrightarrow> checkAborted this s = (Inr (), s))"
  by (simp add: checkAborted_def)

theorem checkAborted_outcome_witness:
  "checkAborted_impl flag_server_sink True
   \<and> checkAborted flag_server_sink True = (Inl RequestAborted, True)
   \<and> \<not> checkAborted_impl flag_server_sink False
   \<and> checkAborted flag_server_sink False = (Inr (), False)"
proof -
  have t: "checkAborted_impl flag_server_sink True"
    and f: "\<not> checkAborted_impl flag_server_sink False"
    by (simp_all add: flag_server_sink_def)
  show ?thesis
    using t f checkAborted_outcome [of flag_server_sink True]
      checkAborted_outcome [of flag_server_sink False]
    by simp
qed

section \<open>The order of listing entries\<close>

lemma string_less_lexord:
  "string_less a b \<longleftrightarrow> (a, b) \<in> lexord {(c, d). (of_char c :: nat) < of_char d}"
  by (induction a b rule: string_less.induct) auto

lemma string_less_trichotomy:
  "\<not> string_less a b \<Longrightarrow> \<not> string_less b a \<Longrightarrow> a = b"
  by (induction a b rule: string_less.induct) (auto split: if_splits)

lemma Type_value_inject: "Type_value a = Type_value b \<Longrightarrow> a = b"
  by (cases a; cases b) simp_all

lemma ListingItem_less_trichotomy:
  fixes a b :: ListingItem
  assumes "\<not> ListingItem_less a b" and "\<not> ListingItem_less b a"
  shows "a = b"
proof -
  from assms have ty: "Type_value (type a) = Type_value (type b)"
    by (auto simp: ListingItem_less_def Type_less_def split: if_splits)
  then have "type a = type b" by (rule Type_value_inject)
  moreover from assms ty have "name a = name b"
    by (auto simp: ListingItem_less_def Type_less_def string_less_trichotomy split: if_splits)
  ultimately show ?thesis by simp
qed

lemma sorted_wrt_mset_unique:
  assumes anti: "\<And>a b. R a b \<Longrightarrow> R b a \<Longrightarrow> a = b"
  shows "sorted_wrt R xs \<Longrightarrow> sorted_wrt R ys \<Longrightarrow> mset xs = mset ys \<Longrightarrow> xs = ys"
proof (induction xs arbitrary: ys)
  case Nil
  then show ?case by simp
next
  case (Cons x xs)
  from Cons.prems(3) obtain y ys' where ys: "ys = y # ys'"
    by (cases ys) auto
  have "x = y"
  proof (rule ccontr)
    assume ne: "x \<noteq> y"
    have "x \<in> set ys" using Cons.prems(3) by (metis list.set_intros(1) set_mset_mset)
    with ne ys have "x \<in> set ys'" by simp
    with Cons.prems(2) ys have 1: "R y x" by simp
    have "y \<in> set (x # xs)" using Cons.prems(3) ys by (metis list.set_intros(1) set_mset_mset)
    with ne have "y \<in> set xs" by simp
    with Cons.prems(1) have 2: "R x y" by simp
    from anti [OF 2 1] ne show False by simp
  qed
  moreover have "xs = ys'"
    using Cons.IH [of ys'] Cons.prems ys \<open>x = y\<close> by simp
  ultimately show ?case using ys by simp
qed

lemma listing_example_sorted_sorted: "sorted_by_less listing_example_sorted"
  by (simp add: sorted_by_less_def listing_example_sorted_def ListingItem_less_def Type_less_def)

lemma listing_example_sorted_mset: "mset listing_example_sorted = mset listing_example"
  by (simp add: listing_example_sorted_def listing_example_def)

text \<open>
  C1. \<^verbatim>\<open>operator<\<close> puts every directory entry strictly before every file entry, and
  compares two entries of one kind by their names, lexicographically on the characters'
  values. The expected order of the example is a rearrangement of the example that is
  sorted by \<^verbatim>\<open>operator<\<close>, and it is the only one: whatever sorts the example by
  \<^verbatim>\<open>operator<\<close> returns it.
\<close>

theorem ListingItem_less_order:
  "(type a = dir \<and> type b = file \<longrightarrow> ListingItem_less a b \<and> \<not> ListingItem_less b a)
   \<and> (type a = type b \<longrightarrow>
        ListingItem_less a b
        = ((name a, name b) \<in> lexord {(c, d). (of_char c :: nat) < of_char d}))
   \<and> mset listing_example_sorted = mset listing_example
   \<and> sorted_by_less listing_example_sorted
   \<and> (mset ys = mset listing_example \<and> sorted_by_less ys \<longrightarrow> ys = listing_example_sorted)"
proof -
  have kinds: "type a = dir \<and> type b = file \<longrightarrow> ListingItem_less a b \<and> \<not> ListingItem_less b a"
    by (simp add: ListingItem_less_def Type_less_def)
  have names: "type a = type b \<longrightarrow>
        ListingItem_less a b
        = ((name a, name b) \<in> lexord {(c, d). (of_char c :: nat) < of_char d})"
    by (simp add: ListingItem_less_def Type_less_def string_less_lexord)
  have uniq: "mset ys = mset listing_example \<and> sorted_by_less ys \<longrightarrow> ys = listing_example_sorted"
  proof
    assume h: "mset ys = mset listing_example \<and> sorted_by_less ys"
    have "sorted_wrt (\<lambda>a b. \<not> ListingItem_less b a) ys"
      using h by (simp add: sorted_by_less_def)
    moreover have "sorted_wrt (\<lambda>a b. \<not> ListingItem_less b a) listing_example_sorted"
      using listing_example_sorted_sorted by (simp add: sorted_by_less_def)
    moreover have "mset ys = mset listing_example_sorted"
      using h listing_example_sorted_mset by simp
    ultimately show "ys = listing_example_sorted"
      by (rule sorted_wrt_mset_unique [rotated]) (rule ListingItem_less_trichotomy)
  qed
  from kinds names listing_example_sorted_mset listing_example_sorted_sorted uniq show ?thesis by blast
qed

theorem ListingItem_less_order_witness:
  "type \<lparr>name = ''z'', type = dir\<rparr> = dir \<and> type \<lparr>name = ''a'', type = file\<rparr> = file
   \<and> ListingItem_less \<lparr>name = ''z'', type = dir\<rparr> \<lparr>name = ''a'', type = file\<rparr>
   \<and> \<not> ListingItem_less \<lparr>name = ''a'', type = file\<rparr> \<lparr>name = ''z'', type = dir\<rparr>
   \<and> type \<lparr>name = ''ab'', type = file\<rparr> = type \<lparr>name = ''b'', type = file\<rparr>
   \<and> ListingItem_less \<lparr>name = ''ab'', type = file\<rparr> \<lparr>name = ''b'', type = file\<rparr>
   \<and> (''ab'', ''b'') \<in> lexord {(c, d). (of_char c :: nat) < of_char d}
   \<and> mset listing_example_sorted = mset listing_example
   \<and> sorted_by_less listing_example_sorted"
  using ListingItem_less_order [of "\<lparr>name = ''z'', type = dir\<rparr>" "\<lparr>name = ''a'', type = file\<rparr>"
      listing_example_sorted]
    ListingItem_less_order [of "\<lparr>name = ''ab'', type = file\<rparr>" "\<lparr>name = ''b'', type = file\<rparr>"
      listing_example_sorted]
  by simp

section \<open>Terminal operations\<close>











end
